theory Spec2Isabelle
  imports Main
begin

section \<open>Strings as the JavaScript code uses them\<close>

text \<open>
  Strings are character lists, a character being a code unit from 0 to 255. On these
  \<open>toLowerCase\<close> moves the ASCII capitals and the Latin-1 capitals (192 to 222 but for the
  multiplication sign, 215) up by 32 and leaves the rest as it is.
  \<open>includes\<close> is \<open>String.prototype.includes\<close>: plain substring containment.
\<close>

definition lowerChar :: "char \<Rightarrow> char" where
  "lowerChar c =
     (let n = (of_char c :: nat)
      in if (65 \<le> n \<and> n \<le> 90) \<or> (192 \<le> n \<and> n \<le> 222 \<and> n \<noteq> 215)
         then char_of (n + 32) else c)"

definition toLowerCase :: "string \<Rightarrow> string" where
  "toLowerCase s = map lowerChar s"

fun startsWith :: "string \<Rightarrow> string \<Rightarrow> bool" where
  "startsWith s [] = True"
| "startsWith [] (k # ks) = False"
| "startsWith (c # cs) (k # ks) = (c = k \<and> startsWith cs ks)"

fun includesStr :: "string \<Rightarrow> string \<Rightarrow> bool" where
  "includesStr [] kw = (kw = [])"
| "includesStr (c # cs) kw = (startsWith (c # cs) kw \<or> includesStr cs kw)"

text \<open>\<open>Array.prototype.some\<close>.\<close>

definition some :: "('a \<Rightarrow> bool) \<Rightarrow> 'a list \<Rightarrow> bool" where
  "some p xs = list_ex p xs"

section \<open>The keyword lists of \<open>fetchGoodNews\<close>\<close>

definition positiveKeywords :: "string list" where
  "positiveKeywords =
    [''breakthrough'', ''success'', ''achieve'', ''discover'', ''innovate'',
     ''cure'', ''saves'', ''helped'', ''donate'', ''volunteer'', ''milestone'',
     ''renewable'', ''sustainable'', ''recovery'', ''celebrates'', ''award'',
     ''research finds'', ''scientists discover'', ''new study'', ''progress'']"

definition excludeKeywords :: "string list" where
  "excludeKeywords =
    [''casino'', ''gambling'', ''bet'', ''poker'', ''slots'', ''free spins'',
     ''death'', ''dead'', ''kill'', ''murder'', ''crash'', ''disaster'', ''tragedy'',
     ''war'', ''attack'', ''terror'', ''bomb'', ''shooting'', ''violence'',
     ''scandal'', ''fraud'', ''scam'', ''accused'', ''arrest'', ''prison'',
     ''crypto'', ''bitcoin'', ''nft'', ''forex'', ''trading signals'',
     ''weight loss'', ''diet pill'', ''supplement'', ''cbd'', ''thc'',
     ''click here'', ''limited time'', ''act now'', ''buy now'', ''discount'',
     ''sponsored'', ''advertisement'', ''promoted'', ''partner content'',
     ''globenewswire'', ''prnewswire'', ''businesswire'', ''accesswire'']"

text \<open>Only \<open>backend/server.js\<close> has this list; \<open>api/cron/daily-digest.js\<close> does not.\<close>

definition trustedSources :: "string list" where
  "trustedSources =
    [''bbc'', ''npr'', ''reuters'', ''associated press'', ''the guardian'',
     ''new york times'', ''washington post'', ''wired'', ''ars technica'',
     ''the verge'', ''techcrunch'', ''nature'', ''science'', ''national geographic'',
     ''smithsonian'', ''cnn'', ''abc news'', ''cbs news'', ''nbc news'', ''time'',
     ''forbes'', ''bloomberg'', ''espn'', ''sports illustrated'']"

section \<open>Article candidates and digest items\<close>

text \<open>
  A field the provider may leave out or send as \<open>null\<close> is an option; \<open>None\<close> stands for
  both \<open>null\<close> and \<open>undefined\<close>. The \<open>source\<close> object itself may be missing, which is
  why the code reads it with \<open>article.source?.name\<close> in the filter.
\<close>

record sourceObj =
  name :: "string option"

record article =
  title :: "string option"
  description :: "string option"
  url :: "string option"
  source :: "sourceObj option"
  urlToImage :: "string option"

text \<open>
  The object literal pushed onto \<open>newsItems\<close>. The copy in \<open>daily-digest.js\<close> has no
  \<open>image\<close> property; there \<open>item_image\<close> is \<open>None\<close>.
\<close>

record item =
  item_title :: "string option"
  item_description :: "string option"
  item_url :: "string option"
  item_source :: "string option"
  item_image :: "string option"
  category :: string

datatype jsError = TypeError | FetchError | SyntaxError

section \<open>The classifier: filter, trust sort, cap\<close>

text \<open>\<open>(article.source?.name || '').toLowerCase()\<close>\<close>

definition sourceName :: "article \<Rightarrow> string" where
  "sourceName a =
     toLowerCase (case source a of
                    None \<Rightarrow> []
                  | Some s \<Rightarrow> (case name s of None \<Rightarrow> [] | Some n \<Rightarrow> n))"

text \<open>\<open>`${article.title} ${article.description}`.toLowerCase()\<close>, for strings.\<close>

definition articleText :: "string \<Rightarrow> string \<Rightarrow> string" where
  "articleText t d = toLowerCase (t @ '' '' @ d)"

definition hasPositive :: "string \<Rightarrow> bool" where
  "hasPositive text = some (\<lambda>kw. includesStr text kw) positiveKeywords"

definition hasExcluded :: "string \<Rightarrow> string \<Rightarrow> bool" where
  "hasExcluded text src = some (\<lambda>kw. includesStr text kw \<or> includesStr src kw) excludeKeywords"

definition isTrusted :: "article \<Rightarrow> bool" where
  "isTrusted a = some (\<lambda>s. includesStr (sourceName a) s) trustedSources"

text \<open>
  The callback of \<open>data.articles.filter\<close>, the same in both files (the \<open>isTrusted\<close> local
  of \<open>server.js\<close> is computed there and not used). \<open>!article.title\<close> holds for a missing
  title and for the empty string.
\<close>

definition isGoodArticle :: "article \<Rightarrow> bool" where
  "isGoodArticle a =
     (case title a of
        None \<Rightarrow> False
      | Some t \<Rightarrow>
         (case description a of
            None \<Rightarrow> False
          | Some d \<Rightarrow>
             if t = [] \<or> d = [] then False
             else hasPositive (articleText t d)
                  \<and> \<not> hasExcluded (articleText t d) (sourceName a)))"

text \<open>
  \<open>goodArticles.sort((a, b) => bTrusted - aTrusted)\<close>. \<open>Array.prototype.sort\<close> is a stable
  sort by the comparator; for a comparator that is a consistent ordering its result is
  determined, and the stable insertion sort below computes it.
\<close>

definition trustCompare :: "article \<Rightarrow> article \<Rightarrow> int" where
  "trustCompare a b = of_bool (isTrusted b) - of_bool (isTrusted a)"

fun insertBy :: "('a \<Rightarrow> 'a \<Rightarrow> int) \<Rightarrow> 'a \<Rightarrow> 'a list \<Rightarrow> 'a list" where
  "insertBy cmp x [] = [x]"
| "insertBy cmp x (y # ys) = (if cmp x y \<le> 0 then x # y # ys else y # insertBy cmp x ys)"

definition sortBy :: "('a \<Rightarrow> 'a \<Rightarrow> int) \<Rightarrow> 'a list \<Rightarrow> 'a list" where
  "sortBy cmp xs = foldr (insertBy cmp) xs []"

text \<open>
  The callback of \<open>.map\<close> in \<open>server.js\<close>. It reads \<open>article.source.name\<close> without the
  \<open>?.\<close>, so an article with no \<open>source\<close> object raises a TypeError.
\<close>

definition toItem :: "string \<Rightarrow> article \<Rightarrow> jsError + item" where
  "toItem interest a =
     (case source a of
        None \<Rightarrow> Inl TypeError
      | Some s \<Rightarrow>
          Inr \<lparr>item_title = title a, item_description = description a, item_url = url a,
               item_source = name s, item_image = urlToImage a, category = interest\<rparr>)"

text \<open>The callback of \<open>.map\<close> in \<open>daily-digest.js\<close>.\<close>

definition toItemCron :: "string \<Rightarrow> article \<Rightarrow> jsError + item" where
  "toItemCron interest a =
     (case source a of
        None \<Rightarrow> Inl TypeError
      | Some s \<Rightarrow>
          Inr \<lparr>item_title = title a, item_description = description a, item_url = url a,
               item_source = name s, item_image = None, category = interest\<rparr>)"

text \<open>\<open>.map\<close> with a callback that may throw: the first exception ends the whole map.\<close>

fun mapE :: "('a \<Rightarrow> 'e + 'b) \<Rightarrow> 'a list \<Rightarrow> 'e + 'b list" where
  "mapE f [] = Inr []"
| "mapE f (x # xs) =
     (case f x of
        Inl e \<Rightarrow> Inl e
      | Inr y \<Rightarrow> (case mapE f xs of Inl e \<Rightarrow> Inl e | Inr ys \<Rightarrow> Inr (y # ys)))"

text \<open>
  What the provider call for one interest came to: \<open>fetch\<close> rejected, \<open>response.json()\<close>
  rejected, or a parsed body whose \<open>articles\<close> property is an array or is missing.
\<close>

datatype response = NetworkError | InvalidJson | Json "article list option"

text \<open>
  The articles kept for one interest in \<open>server.js\<close>:
  \<open>goodArticles\<close> after the sort, cut by \<open>.slice(0, 2)\<close>.
\<close>

definition selectArticles :: "article list \<Rightarrow> article list" where
  "selectArticles articles = take 2 (sortBy trustCompare (filter isGoodArticle articles))"

text \<open>The same in \<open>daily-digest.js\<close>, which has no sort.\<close>

definition selectArticlesCron :: "article list \<Rightarrow> article list" where
  "selectArticlesCron articles = take 2 (filter isGoodArticle articles)"

text \<open>
  The body of the \<open>try\<close> block for one interest, from the response on: the items it would
  push, or the exception it raises.
\<close>

definition goodNewsFor :: "string \<Rightarrow> response \<Rightarrow> jsError + item list" where
  "goodNewsFor interest r =
     (case r of
        NetworkError \<Rightarrow> Inl FetchError
      | InvalidJson \<Rightarrow> Inl SyntaxError
      | Json None \<Rightarrow> Inr []
      | Json (Some articles) \<Rightarrow> mapE (toItem interest) (selectArticles articles))"

definition goodNewsForCron :: "string \<Rightarrow> response \<Rightarrow> jsError + item list" where
  "goodNewsForCron interest r =
     (case r of
        NetworkError \<Rightarrow> Inl FetchError
      | InvalidJson \<Rightarrow> Inl SyntaxError
      | Json None \<Rightarrow> Inr []
      | Json (Some articles) \<Rightarrow> mapE (toItemCron interest) (selectArticlesCron articles))"

text \<open>With the \<open>catch\<close>: an exception leaves \<open>newsItems\<close> as it was, so the interest adds nothing.\<close>

definition pushedFor :: "string \<Rightarrow> response \<Rightarrow> item list" where
  "pushedFor interest r = (case goodNewsFor interest r of Inl e \<Rightarrow> [] | Inr items \<Rightarrow> items)"

definition pushedForCron :: "string \<Rightarrow> response \<Rightarrow> item list" where
  "pushedForCron interest r =
     (case goodNewsForCron interest r of Inl e \<Rightarrow> [] | Inr items \<Rightarrow> items)"

section \<open>The world outside: provider, mail sender, store, clock\<close>

text \<open>
  The subscriber row of \<open>schema.sql\<close>. \<open>timezone\<close> is a nullable column.
\<close>

record subscriber =
  email :: string
  interests :: "string list"
  timezone :: "string option"
  created_at :: "string option"
  updated_at :: "string option"

text \<open>
  \<open>new Date(now.toLocaleString('en-US', { timeZone: tz }))\<close> followed by \<open>getHours()\<close> and
  \<open>getMinutes()\<close>: \<open>toLocaleString\<close> throws a RangeError for a time zone it does not know;
  otherwise the date read back has an hour and a minute, or is an Invalid Date, whose
  \<open>getHours()\<close> is NaN.
\<close>

datatype projection = Throws | InvalidDate | WallClock nat nat

text \<open>An argument list of \<open>resend.emails.send\<close>: the recipient and what the body is rendered from.\<close>

datatype mail =
  Digest string "item list" "string list"
| Welcome string "string list"

text \<open>
  The collaborators are given as oracles. Every call to the provider, the sender or the
  store happens at a tick of a call counter, and the oracle says how the call made at that
  tick ends. The provider's oracle is asked with the interest: the URL of the request
  (a category of \<open>categoryMap\<close> or a free-text query) is a function of the interest and
  the date, and what comes back for it is all the loop looks at.
  \<open>toLocaleString\<close> is the projection of the one \<open>now\<close> of a scheduling cycle.
\<close>

record env =
  newsApi :: "nat \<Rightarrow> string \<Rightarrow> response"
  sendOk :: "nat \<Rightarrow> bool"
  storeOk :: "nat \<Rightarrow> bool"
  toLocaleString :: "string option \<Rightarrow> projection"
  isoNow :: string

datatype storeCall =
  SelectAll
| SelectEmail string
| Update string "string list" string string
| Insert string "string list" string string

record world =
  tick :: nat
  sent :: "mail list"
  rows :: "subscriber list"
  storeCalls :: "storeCall list"

section \<open>\<open>fetchGoodNews\<close>, in both files\<close>

text \<open>One round of \<open>for (const interest of interests.slice(0, 3))\<close> in \<open>server.js\<close>.\<close>

definition fetchStep :: "env \<Rightarrow> item list \<times> world \<Rightarrow> string \<Rightarrow> item list \<times> world" where
  "fetchStep e st interest =
     (let newsItems = fst st; w = snd st;
          r = newsApi e (tick w) interest;
          w' = w\<lparr>tick := Suc (tick w)\<rparr>
      in case goodNewsFor interest r of
           Inl err \<Rightarrow> (newsItems, w')
         | Inr items \<Rightarrow> (newsItems @ items, w'))"

definition fetchGoodNews :: "env \<Rightarrow> string list \<Rightarrow> world \<Rightarrow> item list \<times> world" where
  "fetchGoodNews e ints w = foldl (fetchStep e) ([], w) (take 3 ints)"

text \<open>The same loop in \<open>daily-digest.js\<close>.\<close>

definition fetchStepCron :: "env \<Rightarrow> item list \<times> world \<Rightarrow> string \<Rightarrow> item list \<times> world" where
  "fetchStepCron e st interest =
     (let newsItems = fst st; w = snd st;
          r = newsApi e (tick w) interest;
          w' = w\<lparr>tick := Suc (tick w)\<rparr>
      in case goodNewsForCron interest r of
           Inl err \<Rightarrow> (newsItems, w')
         | Inr items \<Rightarrow> (newsItems @ items, w'))"

definition fetchGoodNewsCron :: "env \<Rightarrow> string list \<Rightarrow> world \<Rightarrow> item list \<times> world" where
  "fetchGoodNewsCron e ints w = foldl (fetchStepCron e) ([], w) (take 3 ints)"

section \<open>The scheduler of \<open>server.js\<close>\<close>

text \<open>
  The callback of \<open>subscribers.filter\<close> in \<open>getSubscribersForCurrentHour\<close>: the \<open>catch\<close>
  returns false, and NaN is not 7.
\<close>

definition isDue :: "env \<Rightarrow> subscriber \<Rightarrow> bool" where
  "isDue e sub =
     (case toLocaleString e (timezone sub) of
        Throws \<Rightarrow> False
      | InvalidDate \<Rightarrow> False
      | WallClock hours minutes \<Rightarrow> hours = 7 \<and> minutes \<ge> 30 \<and> minutes < 45)"

definition getSubscribersForCurrentHour :: "env \<Rightarrow> world \<Rightarrow> subscriber list \<times> world" where
  "getSubscribersForCurrentHour e w =
     (let w' = w\<lparr>tick := Suc (tick w), storeCalls := storeCalls w @ [SelectAll]\<rparr>
      in if \<not> storeOk e (tick w) then ([], w')
         else (filter (isDue e) (rows w), w'))"

text \<open>
  \<open>sendDailyDigest\<close>. A rejected send is caught and logged, so both ways the call has been
  made and the function returns.
\<close>

definition sendDailyDigest :: "env \<Rightarrow> world \<Rightarrow> subscriber \<Rightarrow> world" where
  "sendDailyDigest e w sub =
     (let (news, w1) = fetchGoodNews e (interests sub) w
      in if length news = 0 then w1
         else w1\<lparr>tick := Suc (tick w1),
                 sent := sent w1 @ [Digest (email sub) news (interests sub)]\<rparr>)"

text \<open>The callback of \<open>cron.schedule('*/15 * * * *', ...)\<close>.\<close>

definition cronJob :: "env \<Rightarrow> world \<Rightarrow> world" where
  "cronJob e w =
     (let (subscribers, w1) = getSubscribersForCurrentHour e w
      in foldl (sendDailyDigest e) w1 subscribers)"

section \<open>The scheduler of \<open>daily-digest.js\<close>\<close>

datatype httpResponse =
  Unauthorized
| DigestComplete nat
| ServerError
| BadRequest string
| MethodNotAllowed
| NoContent
| Message string

text \<open>
  The block guarded by the window test in \<open>handler\<close>, on the pair of \<open>sentCount\<close> and
  the world: build the digest and, when it is not empty, send it. A rejected send is caught
  by the \<open>catch\<close> of the loop body before \<open>sentCount++\<close>.
\<close>

definition buildAndSend :: "env \<Rightarrow> nat \<times> world \<Rightarrow> subscriber \<Rightarrow> nat \<times> world" where
  "buildAndSend e st subscriber =
     (let sentCount = fst st; w = snd st;
          (news, w1) = fetchGoodNewsCron e (interests subscriber) w
      in if length news > 0 then
           (let w2 = w1\<lparr>tick := Suc (tick w1),
                         sent := sent w1 @ [Digest (email subscriber) news (interests subscriber)]\<rparr>
            in if sendOk e (tick w1) then (Suc sentCount, w2) else (sentCount, w2))
         else (sentCount, w1))"

text \<open>
  The body of \<open>for (const subscriber of subscribers)\<close> in \<open>handler\<close>. Its \<open>catch\<close>
  swallows the RangeError of the projection; NaN is not 7.
\<close>

definition processSubscriber :: "env \<Rightarrow> nat \<times> world \<Rightarrow> subscriber \<Rightarrow> nat \<times> world" where
  "processSubscriber e st subscriber =
     (case toLocaleString e (timezone subscriber) of
        Throws \<Rightarrow> st
      | InvalidDate \<Rightarrow> st
      | WallClock hour minute \<Rightarrow>
          if hour = 7 \<and> minute \<ge> 30 \<and> minute < 45 then buildAndSend e st subscriber
          else st)"

definition handler :: "env \<Rightarrow> bool \<Rightarrow> world \<Rightarrow> httpResponse \<times> world" where
  "handler e authorized w =
     (if \<not> authorized then (Unauthorized, w)
      else
        (let w0 = w\<lparr>tick := Suc (tick w), storeCalls := storeCalls w @ [SelectAll]\<rparr>
         in if \<not> storeOk e (tick w) then (ServerError, w0)
            else (let (sentCount, w1) = foldl (processSubscriber e) (0, w0) (rows w)
                  in (DigestComplete sentCount, w1))))"

section \<open>The signup handlers\<close>

text \<open>
  The JSON body of a signup request. \<open>None\<close> is a missing or \<open>null\<close> property; for
  \<open>interests\<close> it is any value that is not an array.
\<close>

record signupBody =
  body_email :: "string option"
  body_interests :: "string list option"
  body_timezone :: "string option"

text \<open>
  \<open>\s\<close> and \<open>[^\s@]\<close> of the email pattern. Of the characters that \<open>\s\<close> matches, those
  from 0 to 255 are tab to carriage return, the space and the no-break space (160).
\<close>

definition isSpace :: "char \<Rightarrow> bool" where
  "isSpace c = (let n = (of_char c :: nat) in (9 \<le> n \<and> n \<le> 13) \<or> n = 32 \<or> n = 160)"

definition notSpaceAt :: "char \<Rightarrow> bool" where
  "notSpaceAt c = (\<not> isSpace c \<and> c \<noteq> CHR ''@'')"

text \<open>
  \<open>/^[^\s@]+@[^\s@]+\.[^\s@]+$/.test(email)\<close>: a non-empty run without space or \<open>@\<close>, one
  \<open>@\<close>, and a rest without space or \<open>@\<close> that has a dot with something on both sides.
\<close>

definition emailRegex :: "string \<Rightarrow> bool" where
  "emailRegex s =
     (takeWhile notSpaceAt s \<noteq> []
      \<and> (case dropWhile notSpaceAt s of
            [] \<Rightarrow> False
          | c # domain \<Rightarrow> c = CHR ''@'' \<and> list_all notSpaceAt domain
                        \<and> CHR ''.'' \<in> set (butlast (tl domain))))"

definition isValidEmail :: "string \<Rightarrow> bool" where
  "isValidEmail em = (emailRegex em \<and> length em \<le> 254)"

text \<open>\<open>[a-z0-9\s-]\<close>, the characters \<open>sanitizeInterests\<close> keeps.\<close>

definition keptChar :: "char \<Rightarrow> bool" where
  "keptChar c =
     (let n = (of_char c :: nat)
      in (97 \<le> n \<and> n \<le> 122) \<or> (48 \<le> n \<and> n \<le> 57) \<or> isSpace c \<or> c = CHR ''-'')"

definition sanitizeInterests :: "string list option \<Rightarrow> string list" where
  "sanitizeInterests ints =
     (case ints of
        None \<Rightarrow> []
      | Some xs \<Rightarrow>
          filter (\<lambda>i. length i > 0)
            (map (\<lambda>i. take 50 (filter keptChar (toLowerCase i))) (take 10 xs)))"

text \<open>\<open>String(timezone || 'America/New_York').slice(0, 50)\<close>\<close>

definition cleanTimezoneOf :: "string option \<Rightarrow> string" where
  "cleanTimezoneOf tz =
     take 50 (case tz of
                None \<Rightarrow> ''America/New_York''
              | Some t \<Rightarrow> if t = [] then ''America/New_York'' else t)"

text \<open>
  The three store calls of the handlers. \<open>.single()\<close> gives data only when exactly one row
  matches; an update writes the matching rows; an insert is refused when the email is
  already there (\<open>email TEXT UNIQUE\<close>). A call the store does not answer leaves an error
  and no data. Each returns whether it succeeded.
\<close>

definition selectSingle :: "env \<Rightarrow> world \<Rightarrow> string \<Rightarrow> bool \<times> world" where
  "selectSingle e w em =
     (storeOk e (tick w) \<and> length (filter (\<lambda>r. email r = em) (rows w)) = 1,
      w\<lparr>tick := Suc (tick w), storeCalls := storeCalls w @ [SelectEmail em]\<rparr>)"

definition storeUpdate :: "env \<Rightarrow> world \<Rightarrow> string \<Rightarrow> string list \<Rightarrow> string \<Rightarrow> bool \<times> world" where
  "storeUpdate e w em ints tz =
     (storeOk e (tick w),
      w\<lparr>tick := Suc (tick w),
        storeCalls := storeCalls w @ [Update em ints tz (isoNow e)],
        rows := (if storeOk e (tick w)
                 then map (\<lambda>r. if email r = em
                                then r\<lparr>interests := ints, timezone := Some tz,
                                       updated_at := Some (isoNow e)\<rparr>
                                else r) (rows w)
                 else rows w)\<rparr>)"

definition storeInsert :: "env \<Rightarrow> world \<Rightarrow> string \<Rightarrow> string list \<Rightarrow> string \<Rightarrow> bool \<times> world" where
  "storeInsert e w em ints tz =
     (let ok = (storeOk e (tick w) \<and> em \<notin> set (map email (rows w)))
      in (ok,
          w\<lparr>tick := Suc (tick w),
            storeCalls := storeCalls w @ [Insert em ints tz (isoNow e)],
            rows := (if ok
                     then rows w @ [\<lparr>email = em, interests = ints, timezone = Some tz,
                                     created_at = Some (isoNow e), updated_at = Some (isoNow e)\<rparr>]
                     else rows w)\<rparr>))"

text \<open>\<open>sendWelcomeEmail\<close> of \<open>server.js\<close>: it catches a rejected send itself.\<close>

definition sendWelcomeEmail :: "env \<Rightarrow> world \<Rightarrow> string \<Rightarrow> string list \<Rightarrow> world" where
  "sendWelcomeEmail e w em ints =
     w\<lparr>tick := Suc (tick w), sent := sent w @ [Welcome em ints]\<rparr>"

text \<open>
  \<open>app.post('/api/signup', ...)\<close> of \<open>server.js\<close>. The \<open>catch\<close> of the handler answers
  500 to anything thrown.
\<close>

definition signup :: "env \<Rightarrow> signupBody \<Rightarrow> world \<Rightarrow> httpResponse \<times> world" where
  "signup e body w =
     (case body_email body of
        None \<Rightarrow> (BadRequest ''Valid email required'', w)
      | Some em \<Rightarrow>
          if em = [] \<or> \<not> isValidEmail em then (BadRequest ''Valid email required'', w)
          else
            (let cleanInterests = sanitizeInterests (body_interests body)
             in if length cleanInterests = 0
                then (BadRequest ''At least one interest required'', w)
                else
                  (let cleanTimezone = cleanTimezoneOf (body_timezone body);
                       (existing, w1) = selectSingle e w em
                   in if existing then
                        (let (ok, w2) = storeUpdate e w1 em cleanInterests cleanTimezone
                         in if \<not> ok then (ServerError, w2)
                            else (Message ''Preferences updated successfully!'', w2))
                      else
                        (let (ok, w2) = storeInsert e w1 em cleanInterests cleanTimezone
                         in if \<not> ok then (ServerError, w2)
                            else (Message ''Successfully subscribed!'',
                                  sendWelcomeEmail e w2 em cleanInterests)))))"

text \<open>
  The signup \<open>handler\<close> of the serverless copy. It checks the method first, and it sends
  the welcome mail inside its own \<open>try\<close>, so a rejected send answers 500.
\<close>

datatype httpMethod = POST | OPTIONS | OtherMethod

definition signupHandler :: "env \<Rightarrow> httpMethod \<Rightarrow> signupBody \<Rightarrow> world \<Rightarrow> httpResponse \<times> world" where
  "signupHandler e method body w =
     (if method = OPTIONS then (NoContent, w)
      else if method \<noteq> POST then (MethodNotAllowed, w)
      else
        (case body_email body of
           None \<Rightarrow> (BadRequest ''Valid email required'', w)
         | Some em \<Rightarrow>
             if em = [] \<or> \<not> isValidEmail em then (BadRequest ''Valid email required'', w)
             else
               (let cleanInterests = sanitizeInterests (body_interests body)
                in if length cleanInterests = 0
                   then (BadRequest ''At least one interest required'', w)
                   else
                     (let cleanTimezone = cleanTimezoneOf (body_timezone body);
                          (existing, w1) = selectSingle e w em
                      in if existing then
                           (let (ok, w2) = storeUpdate e w1 em cleanInterests cleanTimezone
                            in if \<not> ok then (ServerError, w2)
                               else (Message ''Preferences updated successfully!'', w2))
                         else
                           (let (ok, w2) = storeInsert e w1 em cleanInterests cleanTimezone
                            in if \<not> ok then (ServerError, w2)
                               else
                                 (let w3 = w2\<lparr>tick := Suc (tick w2),
                                               sent := sent w2 @ [Welcome em cleanInterests]\<rparr>
                                  in if sendOk e (tick w2)
                                     then (Message ''Successfully subscribed!'', w3)
                                     else (ServerError, w3)))))))"

section \<open>Sample inputs\<close>

definition reutersCure :: article where
  "reutersCure =
     \<lparr>title = Some ''Scientists discover breakthrough cure'',
      description = Some ''research finds new treatment'',
      url = Some ''u1'', source = Some \<lparr>name = Some ''Reuters''\<rparr>, urlToImage = None\<rparr>"

definition blogMilestone :: article where
  "blogMilestone =
     \<lparr>title = Some ''Volunteers reach milestone'', description = Some ''a local success'',
      url = Some ''u2'', source = Some \<lparr>name = Some ''Local Blog''\<rparr>, urlToImage = None\<rparr>"

definition cryptoBreakthrough :: article where
  "cryptoBreakthrough =
     \<lparr>title = Some ''Crypto breakthrough'', description = Some ''markets cheer'',
      url = Some ''u3'', source = Some \<lparr>name = Some ''Reuters''\<rparr>, urlToImage = None\<rparr>"

definition betterCure :: article where
  "betterCure =
     \<lparr>title = Some ''A better cure'', description = Some ''doctors hopeful'',
      url = Some ''u4'', source = Some \<lparr>name = Some ''Nighttime Daily''\<rparr>, urlToImage = None\<rparr>"

definition untitledCure :: article where
  "untitledCure =
     \<lparr>title = None, description = Some ''a breakthrough cure'',
      url = Some ''u5'', source = Some \<lparr>name = Some ''Reuters''\<rparr>, urlToImage = None\<rparr>"

text \<open>A world in which it is \<open>hour:minute\<close> in Amsterdam, and an unknown zone throws.\<close>

definition clockEnv :: "nat \<Rightarrow> nat \<Rightarrow> env" where
  "clockEnv hour minute =
     \<lparr>newsApi = (\<lambda>t i. if i = ''health'' then Json (Some [blogMilestone, reutersCure])
                        else if i = ''down'' then NetworkError
                        else Json (Some [])),
      sendOk = (\<lambda>t. True),
      storeOk = (\<lambda>t. True),
      toLocaleString = (\<lambda>tz. if tz = Some ''Europe/Amsterdam'' then WallClock hour minute
                             else if tz = Some ''Asia/Dubai'' then WallClock (hour + 3) minute
                             else Throws),
      isoNow = ''2026-01-01T06:31:00.000Z''\<rparr>"

definition sampleEnv :: env where
  "sampleEnv = clockEnv 7 31"

definition anna :: subscriber where
  "anna = \<lparr>email = ''anna@example.org'', interests = [''health''],
           timezone = Some ''Europe/Amsterdam'', created_at = None, updated_at = None\<rparr>"

definition bob :: subscriber where
  "bob = \<lparr>email = ''bob@example.org'', interests = [''chess''],
          timezone = Some ''Europe/Amsterdam'', created_at = None, updated_at = None\<rparr>"

definition carl :: subscriber where
  "carl = \<lparr>email = ''carl@example.org'', interests = [''health''],
           timezone = Some ''Mars/Olympus'', created_at = None, updated_at = None\<rparr>"

definition sampleWorld :: world where
  "sampleWorld = \<lparr>tick = 0, sent = [], rows = [bob, carl, anna], storeCalls = []\<rparr>"

text \<open>
  Signup requests: two for an address that is already stored, and one whose address has a
  no-break space in it.
\<close>

definition nbspEmailBody :: signupBody where
  "nbspEmailBody =
     \<lparr>body_email = Some (''a'' @ [CHR 0xA0] @ ''b@c.de''), body_interests = Some [''Tech''],
      body_timezone = None\<rparr>"

definition newInterestsBody :: signupBody where
  "newInterestsBody =
     \<lparr>body_email = Some ''anna@example.org'', body_interests = Some [''Tech''],
      body_timezone = None\<rparr>"

definition noInterestsBody :: signupBody where
  "noInterestsBody =
     \<lparr>body_email = Some ''anna@example.org'', body_interests = Some [''!!!''],
      body_timezone = None\<rparr>"

section \<open>Facts about the classifier\<close>

lemma startsWith_iff: "startsWith s kw \<longleftrightarrow> (\<exists>q. s = kw @ q)"
  by (induction s kw rule: startsWith.induct) auto

lemma includesStr_iff: "includesStr s kw \<longleftrightarrow> (\<exists>p q. s = p @ kw @ q)"
proof (induction s)
  case Nil
  then show ?case by auto
next
  case (Cons c cs)
  show ?case
  proof
    assume "includesStr (c # cs) kw"
    then consider "startsWith (c # cs) kw" | "includesStr cs kw" by auto
    then show "\<exists>p q. c # cs = p @ kw @ q"
    proof cases
      case 1
      then obtain q where "c # cs = kw @ q" by (auto simp: startsWith_iff)
      then have "c # cs = [] @ kw @ q" by simp
      then show ?thesis by blast
    next
      case 2
      then obtain p q where "cs = p @ kw @ q" using Cons.IH by blast
      then have "c # cs = (c # p) @ kw @ q" by simp
      then show ?thesis by blast
    qed
  next
    assume "\<exists>p q. c # cs = p @ kw @ q"
    then obtain p q where pq: "c # cs = p @ kw @ q" by blast
    show "includesStr (c # cs) kw"
    proof (cases p)
      case Nil
      then have "startsWith (c # cs) kw" using pq by (auto simp: startsWith_iff)
      then show ?thesis by simp
    next
      case (Cons a p')
      then have "cs = p' @ kw @ q" using pq by simp
      then have "includesStr cs kw" using Cons.IH by blast
      then show ?thesis by simp
    qed
  qed
qed

lemma insertBy_trust:
  "insertBy trustCompare x (filter isTrusted ys @ filter (\<lambda>y. \<not> isTrusted y) ys)
   = filter isTrusted (x # ys) @ filter (\<lambda>y. \<not> isTrusted y) (x # ys)"
proof (cases "isTrusted x")
  case True
  then have "\<And>zs. insertBy trustCompare x zs = x # zs"
    subgoal for zs by (cases zs) (auto simp: trustCompare_def)
    done
  then show ?thesis using True by simp
next
  case False
  have a: "\<And>ts us. \<forall>t\<in>set ts. isTrusted t \<Longrightarrow> insertBy trustCompare x (ts @ us) = ts @ insertBy trustCompare x us"
    subgoal for ts us using False by (induction ts) (auto simp: trustCompare_def)
    done
  have b: "\<And>us. \<forall>u\<in>set us. \<not> isTrusted u \<Longrightarrow> insertBy trustCompare x us = x # us"
    subgoal for us using False by (cases us) (auto simp: trustCompare_def)
    done
  show ?thesis using False by (simp add: a b)
qed

lemma sortBy_trust:
  "sortBy trustCompare xs = filter isTrusted xs @ filter (\<lambda>y. \<not> isTrusted y) xs"
proof (induction xs)
  case Nil
  then show ?case by (simp add: sortBy_def)
next
  case (Cons x xs)
  have "sortBy trustCompare (x # xs) = insertBy trustCompare x (sortBy trustCompare xs)"
    by (simp add: sortBy_def)
  then show ?case using Cons.IH insertBy_trust[of x xs] by simp
qed

lemma mapE_Inr:
  "mapE f xs = Inr ys \<Longrightarrow> length ys = length xs \<and> (\<forall>y\<in>set ys. \<exists>x\<in>set xs. f x = Inr y)"
  by (induction xs arbitrary: ys) (auto split: sum.splits)

lemma length_selectArticles: "length (selectArticles as) \<le> 2"
  by (simp add: selectArticles_def)

lemma length_selectArticlesCron: "length (selectArticlesCron as) \<le> 2"
  by (simp add: selectArticlesCron_def)

lemma set_selectArticles: "set (selectArticles as) \<subseteq> {a \<in> set as. isGoodArticle a}"
proof -
  have "set (selectArticles as) \<subseteq> set (sortBy trustCompare (filter isGoodArticle as))"
    unfolding selectArticles_def by (rule set_take_subset)
  also have "\<dots> \<subseteq> {a \<in> set as. isGoodArticle a}"
    by (auto simp: sortBy_trust)
  finally show ?thesis .
qed

lemma set_selectArticlesCron: "set (selectArticlesCron as) \<subseteq> {a \<in> set as. isGoodArticle a}"
proof -
  have "set (selectArticlesCron as) \<subseteq> set (filter isGoodArticle as)"
    unfolding selectArticlesCron_def by (rule set_take_subset)
  then show ?thesis by auto
qed

lemma pushedFor_cases:
  "pushedFor interest r = [] \<or>
   (\<exists>as. r = Json (Some as) \<and> mapE (toItem interest) (selectArticles as) = Inr (pushedFor interest r))"
  by (auto simp: pushedFor_def goodNewsFor_def split: response.splits option.splits sum.splits)

lemma pushedForCron_cases:
  "pushedForCron interest r = [] \<or>
   (\<exists>as. r = Json (Some as) \<and> mapE (toItemCron interest) (selectArticlesCron as) = Inr (pushedForCron interest r))"
  by (auto simp: pushedForCron_def goodNewsForCron_def split: response.splits option.splits sum.splits)

lemma pushedFor_item:
  assumes "it \<in> set (pushedFor interest r)"
  shows "\<exists>as a. r = Json (Some as) \<and> a \<in> set (selectArticles as) \<and> toItem interest a = Inr it"
proof -
  from assms have "pushedFor interest r \<noteq> []" by auto
  then obtain as where r: "r = Json (Some as)"
    and m: "mapE (toItem interest) (selectArticles as) = Inr (pushedFor interest r)"
    using pushedFor_cases[of interest r] by blast
  from mapE_Inr[OF m] assms obtain a where "a \<in> set (selectArticles as)" "toItem interest a = Inr it"
    by blast
  with r show ?thesis by blast
qed

lemma pushedForCron_item:
  assumes "it \<in> set (pushedForCron interest r)"
  shows "\<exists>as a. r = Json (Some as) \<and> a \<in> set (selectArticlesCron as) \<and> toItemCron interest a = Inr it"
proof -
  from assms have "pushedForCron interest r \<noteq> []" by auto
  then obtain as where r: "r = Json (Some as)"
    and m: "mapE (toItemCron interest) (selectArticlesCron as) = Inr (pushedForCron interest r)"
    using pushedForCron_cases[of interest r] by blast
  from mapE_Inr[OF m] assms obtain a where "a \<in> set (selectArticlesCron as)" "toItemCron interest a = Inr it"
    by blast
  with r show ?thesis by blast
qed

lemma length_pushedFor: "length (pushedFor interest r) \<le> 2"
proof -
  consider "pushedFor interest r = []"
    | as where "mapE (toItem interest) (selectArticles as) = Inr (pushedFor interest r)"
    using pushedFor_cases[of interest r] by blast
  then show ?thesis
  proof cases
    case 1 then show ?thesis by simp
  next
    case 2
    from mapE_Inr[OF 2] length_selectArticles[of as] show ?thesis by simp
  qed
qed

lemma length_pushedForCron: "length (pushedForCron interest r) \<le> 2"
proof -
  consider "pushedForCron interest r = []"
    | as where "mapE (toItemCron interest) (selectArticlesCron as) = Inr (pushedForCron interest r)"
    using pushedForCron_cases[of interest r] by blast
  then show ?thesis
  proof cases
    case 1 then show ?thesis by simp
  next
    case 2
    from mapE_Inr[OF 2] length_selectArticlesCron[of as] show ?thesis by simp
  qed
qed

lemma toItem_category: "toItem interest a = Inr it \<Longrightarrow> category it = interest"
  by (auto simp: toItem_def split: option.splits)

lemma toItemCron_category: "toItemCron interest a = Inr it \<Longrightarrow> category it = interest"
  by (auto simp: toItemCron_def split: option.splits)


text \<open>
  C5. Whatever the provider answered for an interest, the items pushed for it are at most
  two, and each has that interest as its \<open>category\<close>; in \<open>server.js\<close> and in
  \<open>daily-digest.js\<close>.
\<close>

theorem C5_cap_and_category:
  "length (pushedFor interest r) \<le> 2
   \<and> (\<forall>it \<in> set (pushedFor interest r). category it = interest)
   \<and> length (pushedForCron interest r) \<le> 2
   \<and> (\<forall>it \<in> set (pushedForCron interest r). category it = interest)"
  using length_pushedFor length_pushedForCron
  by (meson pushedFor_item pushedForCron_item toItem_category toItemCron_category)

theorem C5_cap_and_category_witness:
  "pushedFor ''health'' (Json (Some [blogMilestone, reutersCure, reutersCure])) \<noteq> []
   \<and> pushedForCron ''health'' (Json (Some [blogMilestone, reutersCure, reutersCure])) \<noteq> []
   \<and> length (pushedFor ''health'' (Json (Some [blogMilestone, reutersCure, reutersCure]))) \<le> 2
   \<and> list_all (\<lambda>it. category it = ''health'')
        (pushedFor ''health'' (Json (Some [blogMilestone, reutersCure, reutersCure])))
   \<and> length (pushedForCron ''health'' (Json (Some [blogMilestone, reutersCure, reutersCure]))) \<le> 2
   \<and> list_all (\<lambda>it. category it = ''health'')
        (pushedForCron ''health'' (Json (Some [blogMilestone, reutersCure, reutersCure])))"
proof -
  have a: "pushedFor ''health'' (Json (Some [blogMilestone, reutersCure, reutersCure])) \<noteq> []"
    by code_simp
  have b: "pushedForCron ''health'' (Json (Some [blogMilestone, reutersCure, reutersCure])) \<noteq> []"
    by code_simp
  show ?thesis
    using a b C5_cap_and_category[of "''health''" "Json (Some [blogMilestone, reutersCure, reutersCure])"]
    unfolding list_all_iff by blast
qed

lemma some_iff: "some p xs \<longleftrightarrow> (\<exists>x\<in>set xs. p x)"
  by (simp add: some_def list_ex_iff)

lemma isGoodArticle_cong:
  "title a = title b \<Longrightarrow> description a = description b \<Longrightarrow> sourceName a = sourceName b
   \<Longrightarrow> isGoodArticle a = isGoodArticle b"
  by (simp add: isGoodArticle_def split: option.splits)

lemma toItem_same_good:
  assumes "toItem interest a = Inr it" "toItem interest b = Inr it"
  shows "isGoodArticle a = isGoodArticle b"
proof -
  from assms obtain sa sb where s: "source a = Some sa" "source b = Some sb"
    by (auto simp: toItem_def split: option.splits)
  with assms have "title a = title b" "description a = description b" "name sa = name sb"
    by (auto simp: toItem_def)
  with s show ?thesis by (intro isGoodArticle_cong) (simp_all add: sourceName_def)
qed

lemma toItemCron_same_good:
  assumes "toItemCron interest a = Inr it" "toItemCron interest b = Inr it"
  shows "isGoodArticle a = isGoodArticle b"
proof -
  from assms obtain sa sb where s: "source a = Some sa" "source b = Some sb"
    by (auto simp: toItemCron_def split: option.splits)
  with assms have "title a = title b" "description a = description b" "name sa = name sb"
    by (auto simp: toItemCron_def)
  with s show ?thesis by (intro isGoodArticle_cong) (simp_all add: sourceName_def)
qed

lemma rejected_not_selected:
  "\<not> isGoodArticle a \<Longrightarrow> a \<notin> set (selectArticles articles) \<and> a \<notin> set (selectArticlesCron articles)"
  using set_selectArticles[of articles] set_selectArticlesCron[of articles] by auto

lemma rejected_not_pushed:
  assumes "\<not> isGoodArticle a" "toItem interest a = Inr it"
  shows "it \<notin> set (pushedFor interest r)"
proof
  assume "it \<in> set (pushedFor interest r)"
  then obtain as b where b: "b \<in> set (selectArticles as)" "toItem interest b = Inr it"
    using pushedFor_item by blast
  then have "isGoodArticle b" using set_selectArticles[of as] by auto
  with toItem_same_good[OF assms(2) b(2)] assms(1) show False by simp
qed

lemma rejected_not_pushed_cron:
  assumes "\<not> isGoodArticle a" "toItemCron interest a = Inr it"
  shows "it \<notin> set (pushedForCron interest r)"
proof
  assume "it \<in> set (pushedForCron interest r)"
  then obtain as b where b: "b \<in> set (selectArticlesCron as)" "toItemCron interest b = Inr it"
    using pushedForCron_item by blast
  then have "isGoodArticle b" using set_selectArticlesCron[of as] by auto
  with toItemCron_same_good[OF assms(2) b(2)] assms(1) show False by simp
qed

lemma rejected_everywhere:
  assumes "\<not> isGoodArticle a"
  shows "a \<notin> set (selectArticles articles) \<and> a \<notin> set (selectArticlesCron articles)
     \<and> (\<forall>it. toItem interest a = Inr it \<longrightarrow> it \<notin> set (pushedFor interest r))
     \<and> (\<forall>it. toItemCron interest a = Inr it \<longrightarrow> it \<notin> set (pushedForCron interest r'))"
  using rejected_not_selected[OF assms] rejected_not_pushed[OF assms] rejected_not_pushed_cron[OF assms]
  by blast

lemma hasExcluded_iff:
  "hasExcluded text src \<longleftrightarrow>
     (\<exists>kw\<in>set excludeKeywords. (\<exists>p q. text = p @ kw @ q) \<or> (\<exists>p q. src = p @ kw @ q))"
  by (simp add: hasExcluded_def some_iff includesStr_iff)

lemma isTrusted_iff:
  "isTrusted a \<longleftrightarrow> (\<exists>s\<in>set trustedSources. \<exists>p q. sourceName a = p @ s @ q)"
  by (simp add: isTrusted_def some_iff includesStr_iff)

text \<open>
  C6. A candidate whose title or description is missing or is the empty string fails the
  filter whatever its other fields say: it is not among the articles kept by either copy of
  \<open>fetchGoodNews\<close>, and no item made from it is in the output.
\<close>

theorem C6_missing_title_or_description:
  assumes "title a = None \<or> title a = Some [] \<or> description a = None \<or> description a = Some []"
  shows "\<not> isGoodArticle a
     \<and> a \<notin> set (selectArticles articles) \<and> a \<notin> set (selectArticlesCron articles)
     \<and> (\<forall>it. toItem interest a = Inr it \<longrightarrow> it \<notin> set (pushedFor interest (Json (Some articles))))
     \<and> (\<forall>it. toItemCron interest a = Inr it \<longrightarrow> it \<notin> set (pushedForCron interest (Json (Some articles))))"
proof -
  from assms have "\<not> isGoodArticle a"
    by (auto simp: isGoodArticle_def split: option.splits)
  then show ?thesis using rejected_everywhere by blast
qed

lemma untitledCure_item:
  "toItem ''health'' untitledCure =
     Inr \<lparr>item_title = None, item_description = Some ''a breakthrough cure'', item_url = Some ''u5'',
          item_source = Some ''Reuters'', item_image = None, category = ''health''\<rparr>"
  by (simp add: toItem_def untitledCure_def)

theorem C6_missing_title_or_description_witness:
  "title untitledCure = None
   \<and> hasPositive (toLowerCase ''a breakthrough cure'')
   \<and> \<not> isGoodArticle untitledCure
   \<and> untitledCure \<notin> set (selectArticles [untitledCure, reutersCure])
   \<and> untitledCure \<notin> set (selectArticlesCron [untitledCure, reutersCure])
   \<and> (\<exists>it. toItem ''health'' untitledCure = Inr it
          \<and> it \<notin> set (pushedFor ''health'' (Json (Some [untitledCure, reutersCure]))))"
proof -
  have t: "title untitledCure = None" by (simp add: untitledCure_def)
  have p: "hasPositive (toLowerCase ''a breakthrough cure'')" by code_simp
  from t have h: "title untitledCure = None \<or> title untitledCure = Some [] \<or>
     description untitledCure = None \<or> description untitledCure = Some []" by simp
  show ?thesis
    using t p untitledCure_item
      C6_missing_title_or_description[OF h, of "[untitledCure, reutersCure]" "''health''"]
    by blast
qed

text \<open>
  C2. A candidate whose lowercased title and description contain a positive keyword and for
  which an exclusion keyword occurs in that text or in the lowercased source name is
  rejected: it is not among the articles kept by either copy, and no item made from it is
  in the output. Exclusion wins over positivity.
\<close>

theorem C2_exclusion_over_positivity:
  assumes "title a = Some t" "description a = Some d"
    and "hasPositive (articleText t d)"
    and "hasExcluded (articleText t d) (sourceName a)"
  shows "\<not> isGoodArticle a
     \<and> a \<notin> set (selectArticles articles) \<and> a \<notin> set (selectArticlesCron articles)
     \<and> (\<forall>it. toItem interest a = Inr it \<longrightarrow> it \<notin> set (pushedFor interest (Json (Some articles))))
     \<and> (\<forall>it. toItemCron interest a = Inr it \<longrightarrow> it \<notin> set (pushedForCron interest (Json (Some articles))))"
proof -
  from assms have "\<not> isGoodArticle a"
    by (simp add: isGoodArticle_def)
  then show ?thesis using rejected_everywhere by blast
qed

lemma cryptoBreakthrough_item:
  "toItem ''tech'' cryptoBreakthrough =
     Inr \<lparr>item_title = Some ''Crypto breakthrough'', item_description = Some ''markets cheer'',
          item_url = Some ''u3'', item_source = Some ''Reuters'', item_image = None,
          category = ''tech''\<rparr>"
  by (simp add: toItem_def cryptoBreakthrough_def)

theorem C2_exclusion_over_positivity_witness:
  "hasPositive (articleText ''Crypto breakthrough'' ''markets cheer'')
   \<and> hasExcluded (articleText ''Crypto breakthrough'' ''markets cheer'') (sourceName cryptoBreakthrough)
   \<and> \<not> isGoodArticle cryptoBreakthrough
   \<and> cryptoBreakthrough \<notin> set (selectArticles [cryptoBreakthrough, reutersCure])
   \<and> cryptoBreakthrough \<notin> set (selectArticlesCron [cryptoBreakthrough, reutersCure])
   \<and> (\<exists>it. toItem ''tech'' cryptoBreakthrough = Inr it
          \<and> it \<notin> set (pushedFor ''tech'' (Json (Some [cryptoBreakthrough, reutersCure]))))"
proof -
  have t: "title cryptoBreakthrough = Some ''Crypto breakthrough''"
    and d: "description cryptoBreakthrough = Some ''markets cheer''"
    by (simp_all add: cryptoBreakthrough_def)
  have p: "hasPositive (articleText ''Crypto breakthrough'' ''markets cheer'')" by code_simp
  have x: "hasExcluded (articleText ''Crypto breakthrough'' ''markets cheer'') (sourceName cryptoBreakthrough)"
    by code_simp
  show ?thesis
    using p x cryptoBreakthrough_item
      C2_exclusion_over_positivity[OF t d p x, of "[cryptoBreakthrough, reutersCure]" "''tech''"]
    by blast
qed

text \<open>
  C10. Keywords are matched as plain substrings of the lowercased text, with no regard to
  word boundaries: a candidate whose text has an exclusion keyword anywhere inside it, also
  in the middle of a longer word, is rejected by both copies, positive keywords or not. In
  the same way \<open>server.js\<close> counts a source as trusted exactly when its lowercased name has
  a trusted-source name somewhere inside it.
\<close>

theorem C10_substring_matching:
  assumes "title a = Some t" "description a = Some d"
    and "kw \<in> set excludeKeywords"
    and "articleText t d = p @ kw @ q"
  shows "hasExcluded (articleText t d) (sourceName a)
     \<and> \<not> isGoodArticle a
     \<and> a \<notin> set (selectArticles articles) \<and> a \<notin> set (selectArticlesCron articles)
     \<and> (\<forall>it. toItem interest a = Inr it \<longrightarrow> it \<notin> set (pushedFor interest (Json (Some articles))))
     \<and> (\<forall>it. toItemCron interest a = Inr it \<longrightarrow> it \<notin> set (pushedForCron interest (Json (Some articles))))
     \<and> (isTrusted b \<longleftrightarrow> (\<exists>s\<in>set trustedSources. \<exists>p' q'. sourceName b = p' @ s @ q'))"
proof -
  from assms(3,4) have x: "hasExcluded (articleText t d) (sourceName a)"
    unfolding hasExcluded_iff by blast
  with assms(1,2) have "\<not> isGoodArticle a"
    by (simp add: isGoodArticle_def)
  then show ?thesis using x rejected_everywhere isTrusted_iff by blast
qed

lemma betterCure_item:
  "toItem ''health'' betterCure =
     Inr \<lparr>item_title = Some ''A better cure'', item_description = Some ''doctors hopeful'',
          item_url = Some ''u4'', item_source = Some ''Nighttime Daily'', item_image = None,
          category = ''health''\<rparr>"
  by (simp add: toItem_def betterCure_def)

theorem C10_substring_matching_witness:
  "''bet'' \<in> set excludeKeywords
   \<and> articleText ''A better cure'' ''doctors hopeful'' = ''a '' @ ''bet'' @ ''ter cure doctors hopeful''
   \<and> hasPositive (articleText ''A better cure'' ''doctors hopeful'')
   \<and> \<not> isGoodArticle betterCure
   \<and> betterCure \<notin> set (selectArticles [betterCure, reutersCure])
   \<and> betterCure \<notin> set (selectArticlesCron [betterCure, reutersCure])
   \<and> (\<exists>it. toItem ''health'' betterCure = Inr it
          \<and> it \<notin> set (pushedFor ''health'' (Json (Some [betterCure, reutersCure]))))
   \<and> ''time'' \<in> set trustedSources
   \<and> sourceName betterCure = ''night'' @ ''time'' @ '' daily''
   \<and> isTrusted betterCure"
proof -
  have t: "title betterCure = Some ''A better cure''"
    and d: "description betterCure = Some ''doctors hopeful''"
    by (simp_all add: betterCure_def)
  have k: "''bet'' \<in> set excludeKeywords" by (simp add: excludeKeywords_def)
  have x: "articleText ''A better cure'' ''doctors hopeful'' = ''a '' @ ''bet'' @ ''ter cure doctors hopeful''"
    by code_simp
  have p: "hasPositive (articleText ''A better cure'' ''doctors hopeful'')" by code_simp
  have s: "''time'' \<in> set trustedSources" by (simp add: trustedSources_def)
  have n: "sourceName betterCure = ''night'' @ ''time'' @ '' daily''" by code_simp
  from s n have e: "\<exists>s\<in>set trustedSources. \<exists>p' q'. sourceName betterCure = p' @ s @ q'" by blast
  show ?thesis
    using k x p s n e betterCure_item
      C10_substring_matching[OF t d k x, of "[betterCure, reutersCure]" "''health''" betterCure]
    by blast
qed

lemma selectArticles_trust_order:
  "selectArticles articles =
     take 2 (filter isTrusted (filter isGoodArticle articles)
             @ filter (\<lambda>a. \<not> isTrusted a) (filter isGoodArticle articles))"
  by (simp add: selectArticles_def sortBy_trust)

text \<open>
  What \<open>server.js\<close> keeps for an interest: the trusted good articles in fetch order, then
  the other good articles in fetch order, cut to two.
\<close>

lemma selectArticles_trusted_first:
  "selectArticles articles =
     take 2 (filter isTrusted (filter isGoodArticle articles))
     @ take (2 - length (filter isTrusted (filter isGoodArticle articles)))
         (filter (\<lambda>a. \<not> isTrusted a) (filter isGoodArticle articles))"
  by (simp add: selectArticles_trust_order)

lemma sample_facts:
  "isGoodArticle blogMilestone" "isGoodArticle reutersCure"
  "\<not> isTrusted blogMilestone" "isTrusted reutersCure"
  by code_simp+

text \<open>
  C1. The copy of \<open>fetchGoodNews\<close> in \<open>daily-digest.js\<close> has no trust sort. Given an
  untrusted candidate followed by a trusted one, both passing the filter, it emits them in
  fetch order, the untrusted one first; \<open>server.js\<close> on the same input emits the trusted
  one first.
\<close>

theorem C1_cron_has_no_trust_sort:
  "isGoodArticle blogMilestone \<and> isGoodArticle reutersCure
   \<and> \<not> isTrusted blogMilestone \<and> isTrusted reutersCure
   \<and> map item_source (pushedForCron ''health'' (Json (Some [blogMilestone, reutersCure])))
       = [Some ''Local Blog'', Some ''Reuters'']
   \<and> map item_source (pushedFor ''health'' (Json (Some [blogMilestone, reutersCure])))
       = [Some ''Reuters'', Some ''Local Blog'']"
proof -
  have s: "selectArticles [blogMilestone, reutersCure] = [reutersCure, blogMilestone]"
    by (simp add: selectArticles_trust_order sample_facts)
  have c: "selectArticlesCron [blogMilestone, reutersCure] = [blogMilestone, reutersCure]"
    by (simp add: selectArticlesCron_def sample_facts)
  have a: "map item_source (pushedForCron ''health'' (Json (Some [blogMilestone, reutersCure])))
       = [Some ''Local Blog'', Some ''Reuters'']"
  proof -
    have "pushedForCron ''health'' (Json (Some [blogMilestone, reutersCure]))
        = (case mapE (toItemCron ''health'') [blogMilestone, reutersCure] of
             Inl e \<Rightarrow> [] | Inr items \<Rightarrow> items)"
      by (simp add: pushedForCron_def goodNewsForCron_def c)
    then show ?thesis
      by (simp add: toItemCron_def blogMilestone_def reutersCure_def)
  qed
  have b: "map item_source (pushedFor ''health'' (Json (Some [blogMilestone, reutersCure])))
       = [Some ''Reuters'', Some ''Local Blog'']"
  proof -
    have "pushedFor ''health'' (Json (Some [blogMilestone, reutersCure]))
        = (case mapE (toItem ''health'') [reutersCure, blogMilestone] of
             Inl e \<Rightarrow> [] | Inr items \<Rightarrow> items)"
      by (simp add: pushedFor_def goodNewsFor_def s)
    then show ?thesis
      by (simp add: toItem_def blogMilestone_def reutersCure_def)
  qed
  show ?thesis using sample_facts a b by simp
qed

section \<open>Facts about the fetch loop\<close>

text \<open>
  The provider calls of one \<open>fetchGoodNews\<close>: the interests consulted, each with the tick
  at which its call is made.
\<close>

lemma fetchStep_eq:
  "fetchStep e (acc, w) x = (acc @ pushedFor x (newsApi e (tick w) x), w\<lparr>tick := Suc (tick w)\<rparr>)"
  by (simp add: fetchStep_def pushedFor_def Let_def split: sum.splits)

lemma fetchStepCron_eq:
  "fetchStepCron e (acc, w) x =
     (acc @ pushedForCron x (newsApi e (tick w) x), w\<lparr>tick := Suc (tick w)\<rparr>)"
  by (simp add: fetchStepCron_def pushedForCron_def Let_def split: sum.splits)

lemma foldl_fetchStep:
  "foldl (fetchStep e) (acc, w) xs =
     (acc @ concat (map (\<lambda>(t, x). pushedFor x (newsApi e t x)) (enumerate (tick w) xs)),
      w\<lparr>tick := tick w + length xs\<rparr>)"
proof (induction xs arbitrary: acc w)
  case Nil
  then show ?case by simp
next
  case (Cons x xs)
  show ?case
    by (simp add: fetchStep_eq Cons.IH)
qed

lemma foldl_fetchStepCron:
  "foldl (fetchStepCron e) (acc, w) xs =
     (acc @ concat (map (\<lambda>(t, x). pushedForCron x (newsApi e t x)) (enumerate (tick w) xs)),
      w\<lparr>tick := tick w + length xs\<rparr>)"
proof (induction xs arbitrary: acc w)
  case Nil
  then show ?case by simp
next
  case (Cons x xs)
  show ?case
    by (simp add: fetchStepCron_eq Cons.IH)
qed

lemma fetchGoodNews_eq:
  "fetchGoodNews e ints w =
     (concat (map (\<lambda>(t, x). pushedFor x (newsApi e t x)) (enumerate (tick w) (take 3 ints))),
      w\<lparr>tick := tick w + length (take 3 ints)\<rparr>)"
  by (simp add: fetchGoodNews_def foldl_fetchStep)

lemma fetchGoodNewsCron_eq:
  "fetchGoodNewsCron e ints w =
     (concat (map (\<lambda>(t, x). pushedForCron x (newsApi e t x)) (enumerate (tick w) (take 3 ints))),
      w\<lparr>tick := tick w + length (take 3 ints)\<rparr>)"
  by (simp add: fetchGoodNewsCron_def foldl_fetchStepCron)

lemma pushedFor_failed:
  "r = NetworkError \<or> r = InvalidJson \<Longrightarrow> pushedFor x r = [] \<and> pushedForCron x r = []"
  by (auto simp: pushedFor_def pushedForCron_def goodNewsFor_def goodNewsForCron_def)

lemma concat_map_skip:
  assumes "k < length ps" "f (ps ! k) = []"
  shows "concat (map f ps) = concat (map f (take k ps @ drop (Suc k) ps))"
proof -
  have "ps = take k ps @ ps ! k # drop (Suc k) ps"
    using assms(1) by (simp add: id_take_nth_drop)
  then have "concat (map f ps) = concat (map f (take k ps @ ps ! k # drop (Suc k) ps))"
    by simp
  also have "\<dots> = concat (map f (take k ps @ drop (Suc k) ps))"
    using assms(2) by simp
  finally show ?thesis .
qed

text \<open>
  C7. When the provider call for one of the first three interests fails (the fetch or the
  parsing of the response), \<open>fetchGoodNews\<close> still returns: its result is the
  concatenation of what the other consulted interests yield, the failed one adding nothing;
  in \<open>server.js\<close> and in \<open>daily-digest.js\<close>.
\<close>

theorem C7_failed_fetch_is_local:
  assumes "k < length (take 3 ints)"
    and "newsApi e (tick w + k) (ints ! k) = NetworkError
         \<or> newsApi e (tick w + k) (ints ! k) = InvalidJson"
  shows "fst (fetchGoodNews e ints w) =
           concat (map (\<lambda>(t, x). pushedFor x (newsApi e t x))
                    (take k (enumerate (tick w) (take 3 ints))
                     @ drop (Suc k) (enumerate (tick w) (take 3 ints))))
       \<and> fst (fetchGoodNewsCron e ints w) =
           concat (map (\<lambda>(t, x). pushedForCron x (newsApi e t x))
                    (take k (enumerate (tick w) (take 3 ints))
                     @ drop (Suc k) (enumerate (tick w) (take 3 ints))))
       \<and> pushedFor (ints ! k) (newsApi e (tick w + k) (ints ! k)) = []
       \<and> pushedForCron (ints ! k) (newsApi e (tick w + k) (ints ! k)) = []"
proof -
  let ?calls = "enumerate (tick w) (take 3 ints)"
  have len: "k < length ?calls" using assms(1) by simp
  have nth: "?calls ! k = (tick w + k, ints ! k)"
    using assms(1) by (simp add: nth_enumerate_eq)
  have f: "pushedFor (ints ! k) (newsApi e (tick w + k) (ints ! k)) = []"
    and g: "pushedForCron (ints ! k) (newsApi e (tick w + k) (ints ! k)) = []"
    using pushedFor_failed[OF assms(2)] by simp_all
  have a: "(\<lambda>(t, x). pushedFor x (newsApi e t x)) (?calls ! k) = []"
    using f nth by simp
  have b: "(\<lambda>(t, x). pushedForCron x (newsApi e t x)) (?calls ! k) = []"
    using g nth by simp
  show ?thesis
    using concat_map_skip[of k ?calls "\<lambda>(t, x). pushedFor x (newsApi e t x)", OF len a]
      concat_map_skip[of k ?calls "\<lambda>(t, x). pushedForCron x (newsApi e t x)", OF len b] f g
    by (simp add: fetchGoodNews_eq fetchGoodNewsCron_eq)
qed

lemma sample_health:
  "pushedFor ''health'' (Json (Some [blogMilestone, reutersCure])) \<noteq> []"
  "pushedForCron ''health'' (Json (Some [blogMilestone, reutersCure])) \<noteq> []"
  by code_simp+

theorem C7_failed_fetch_is_local_witness:
  "(0::nat) < length (take 3 [''down'', ''health'', ''chess'', ''health''])
   \<and> newsApi sampleEnv (tick sampleWorld + 0) ([''down'', ''health'', ''chess'', ''health''] ! 0)
       = NetworkError
   \<and> fst (fetchGoodNews sampleEnv [''down'', ''health'', ''chess'', ''health''] sampleWorld)
       = pushedFor ''health'' (Json (Some [blogMilestone, reutersCure]))
   \<and> fst (fetchGoodNewsCron sampleEnv [''down'', ''health'', ''chess'', ''health''] sampleWorld)
       = pushedForCron ''health'' (Json (Some [blogMilestone, reutersCure]))
   \<and> fst (fetchGoodNews sampleEnv [''down'', ''health'', ''chess'', ''health''] sampleWorld) \<noteq> []
   \<and> fst (fetchGoodNewsCron sampleEnv [''down'', ''health'', ''chess'', ''health''] sampleWorld) \<noteq> []"
proof -
  let ?ints = "[''down'', ''health'', ''chess'', ''health'']"
  have k: "(0::nat) < length (take 3 ?ints)" by simp
  have n: "newsApi sampleEnv (tick sampleWorld + 0) (?ints ! 0) = NetworkError"
    by (simp add: sampleEnv_def clockEnv_def)
  have calls: "drop (Suc 0) (enumerate (tick sampleWorld) (take 3 ?ints)) = [(1, ''health''), (2, ''chess'')]"
    by (simp add: sampleWorld_def)
  have h: "\<And>t. newsApi sampleEnv t ''health'' = Json (Some [blogMilestone, reutersCure])"
    and c: "\<And>t. newsApi sampleEnv t ''chess'' = Json (Some [])"
    by (simp_all add: sampleEnv_def clockEnv_def)
  have e: "pushedFor ''chess'' (Json (Some [])) = []" "pushedForCron ''chess'' (Json (Some [])) = []"
    by (simp_all add: pushedFor_def pushedForCron_def goodNewsFor_def goodNewsForCron_def
        selectArticles_def selectArticlesCron_def sortBy_def)
  from C7_failed_fetch_is_local[of 0 ?ints sampleEnv sampleWorld, OF k disjI1[OF n]]
  have "fst (fetchGoodNews sampleEnv ?ints sampleWorld)
          = pushedFor ''health'' (Json (Some [blogMilestone, reutersCure]))"
    and "fst (fetchGoodNewsCron sampleEnv ?ints sampleWorld)
          = pushedForCron ''health'' (Json (Some [blogMilestone, reutersCure]))"
    unfolding calls by (simp_all add: h c e)
  then show ?thesis using k n sample_health by simp
qed

section \<open>Facts about the schedulers\<close>

lemma isDue_iff:
  "isDue e sub \<longleftrightarrow>
     (\<exists>minute. toLocaleString e (timezone sub) = WallClock 7 minute \<and> 30 \<le> minute \<and> minute < 45)"
  by (auto simp: isDue_def split: projection.splits)

lemma processSubscriber_eq:
  "processSubscriber e st sub =
     (if \<exists>minute. toLocaleString e (timezone sub) = WallClock 7 minute \<and> 30 \<le> minute \<and> minute < 45
      then buildAndSend e st sub else st)"
  by (auto simp: processSubscriber_def split: projection.splits)

text \<open>
  C3. A subscriber is due exactly when the projected local hour is 7 and the minute is at
  least 30 and below 45. In \<open>server.js\<close> the due subscribers are the stored ones that pass
  this test; in \<open>daily-digest.js\<close> the digest is built for a subscriber exactly under this
  test. 07:31 is due, 07:29 and 07:46 are not.
\<close>

theorem C3_due_window:
  "(isDue e sub \<longleftrightarrow>
      (\<exists>minute. toLocaleString e (timezone sub) = WallClock 7 minute \<and> 30 \<le> minute \<and> minute < 45))
   \<and> (storeOk e (tick w) \<longrightarrow>
        (sub \<in> set (fst (getSubscribersForCurrentHour e w)) \<longleftrightarrow>
           sub \<in> set (rows w) \<and>
           (\<exists>minute. toLocaleString e (timezone sub) = WallClock 7 minute \<and> 30 \<le> minute \<and> minute < 45)))
   \<and> processSubscriber e st sub =
       (if \<exists>minute. toLocaleString e (timezone sub) = WallClock 7 minute \<and> 30 \<le> minute \<and> minute < 45
        then buildAndSend e st sub else st)
   \<and> (toLocaleString e (timezone sub) = WallClock 7 31 \<longrightarrow> isDue e sub)
   \<and> (toLocaleString e (timezone sub) = WallClock 7 29 \<longrightarrow> \<not> isDue e sub)
   \<and> (toLocaleString e (timezone sub) = WallClock 7 46 \<longrightarrow> \<not> isDue e sub)"
proof -
  have a: "storeOk e (tick w) \<longrightarrow>
        (sub \<in> set (fst (getSubscribersForCurrentHour e w)) \<longleftrightarrow> sub \<in> set (rows w) \<and> isDue e sub)"
    by (simp add: getSubscribersForCurrentHour_def Let_def)
  have b: "toLocaleString e (timezone sub) = WallClock 7 31 \<longrightarrow> isDue e sub"
    "toLocaleString e (timezone sub) = WallClock 7 29 \<longrightarrow> \<not> isDue e sub"
    "toLocaleString e (timezone sub) = WallClock 7 46 \<longrightarrow> \<not> isDue e sub"
    by (simp_all add: isDue_def)
  show ?thesis
    using a b isDue_iff[of e sub] processSubscriber_eq[of e st sub] by simp
qed

lemma anna_clock: "toLocaleString (clockEnv h m) (timezone anna) = WallClock h m"
  by (simp add: clockEnv_def anna_def)

theorem C3_due_window_witness:
  "toLocaleString (clockEnv 7 31) (timezone anna) = WallClock 7 31
   \<and> isDue (clockEnv 7 31) anna
   \<and> storeOk (clockEnv 7 31) (tick sampleWorld)
   \<and> anna \<in> set (rows sampleWorld)
   \<and> anna \<in> set (fst (getSubscribersForCurrentHour (clockEnv 7 31) sampleWorld))
   \<and> processSubscriber (clockEnv 7 31) (0, sampleWorld) anna
       = buildAndSend (clockEnv 7 31) (0, sampleWorld) anna
   \<and> toLocaleString (clockEnv 7 29) (timezone anna) = WallClock 7 29
   \<and> \<not> isDue (clockEnv 7 29) anna
   \<and> anna \<notin> set (fst (getSubscribersForCurrentHour (clockEnv 7 29) sampleWorld))
   \<and> processSubscriber (clockEnv 7 29) (0, sampleWorld) anna = (0, sampleWorld)
   \<and> toLocaleString (clockEnv 7 46) (timezone anna) = WallClock 7 46
   \<and> \<not> isDue (clockEnv 7 46) anna
   \<and> anna \<notin> set (fst (getSubscribersForCurrentHour (clockEnv 7 46) sampleWorld))
   \<and> processSubscriber (clockEnv 7 46) (0, sampleWorld) anna = (0, sampleWorld)"
proof -
  have ok: "\<And>h m. storeOk (clockEnv h m) (tick sampleWorld)"
    by (simp add: clockEnv_def)
  have r: "anna \<in> set (rows sampleWorld)" by (simp add: sampleWorld_def)
  show ?thesis
    using ok r anna_clock[of 7 31] anna_clock[of 7 29] anna_clock[of 7 46]
      C3_due_window[of "clockEnv 7 31" anna sampleWorld "(0, sampleWorld)"]
      C3_due_window[of "clockEnv 7 29" anna sampleWorld "(0, sampleWorld)"]
      C3_due_window[of "clockEnv 7 46" anna sampleWorld "(0, sampleWorld)"]
    by simp
qed

lemma foldl_skip:
  assumes "\<And>st. f st x = st"
  shows "foldl f st (before @ x # after) = foldl f st (before @ after)"
  by (simp add: assms)

text \<open>
  C4. A subscriber whose time zone makes the projection throw is not due, and the
  exception stops there: \<open>getSubscribersForCurrentHour\<close> returns the due ones among the
  others, and the loop of \<open>handler\<close> runs as if that subscriber were not in the batch and
  answers 200 with its count.
\<close>

theorem C4_bad_timezone_is_skipped:
  assumes "toLocaleString e (timezone sub) = Throws"
    and "rows w = before @ sub # after"
  shows "\<not> isDue e sub
     \<and> fst (getSubscribersForCurrentHour e w) =
         (if storeOk e (tick w) then filter (isDue e) before @ filter (isDue e) after else [])
     \<and> processSubscriber e st sub = st
     \<and> foldl (processSubscriber e) st (before @ sub # after)
         = foldl (processSubscriber e) st (before @ after)
     \<and> (storeOk e (tick w) \<longrightarrow>
          handler e True w =
            (case foldl (processSubscriber e)
                    (0, w\<lparr>tick := Suc (tick w), storeCalls := storeCalls w @ [SelectAll]\<rparr>)
                    (before @ after) of
               (sentCount, w1) \<Rightarrow> (DigestComplete sentCount, w1)))"
proof -
  have d: "\<not> isDue e sub" using assms(1) by (simp add: isDue_def)
  have p: "\<And>st. processSubscriber e st sub = st"
    using assms(1) by (simp add: processSubscriber_def)
  have f: "\<And>st. foldl (processSubscriber e) st (before @ sub # after)
         = foldl (processSubscriber e) st (before @ after)"
    using p by (rule foldl_skip)
  have g: "fst (getSubscribersForCurrentHour e w) =
         (if storeOk e (tick w) then filter (isDue e) before @ filter (isDue e) after else [])"
    using d assms(2) by (simp add: getSubscribersForCurrentHour_def Let_def)
  have h: "storeOk e (tick w) \<longrightarrow>
          handler e True w =
            (case foldl (processSubscriber e)
                    (0, w\<lparr>tick := Suc (tick w), storeCalls := storeCalls w @ [SelectAll]\<rparr>)
                    (before @ after) of
               (sentCount, w1) \<Rightarrow> (DigestComplete sentCount, w1))"
    using assms(2) by (simp add: handler_def Let_def p)
  show ?thesis using d p f g h by simp
qed

lemma sample_due:
  "isDue sampleEnv bob" "isDue sampleEnv anna" "\<not> isDue sampleEnv carl"
  by (simp_all add: isDue_def sampleEnv_def clockEnv_def bob_def anna_def carl_def)

lemma sample_handler_count:
  "fst (foldl (processSubscriber sampleEnv)
          (0, sampleWorld\<lparr>tick := Suc (tick sampleWorld),
                          storeCalls := storeCalls sampleWorld @ [SelectAll]\<rparr>)
          ([bob] @ [anna])) = 1"
  by code_simp

theorem C4_bad_timezone_is_skipped_witness:
  "toLocaleString sampleEnv (timezone carl) = Throws
   \<and> rows sampleWorld = [bob] @ carl # [anna]
   \<and> \<not> isDue sampleEnv carl
   \<and> fst (getSubscribersForCurrentHour sampleEnv sampleWorld) = [bob, anna]
   \<and> processSubscriber sampleEnv (0, sampleWorld) carl = (0, sampleWorld)
   \<and> fst (handler sampleEnv True sampleWorld) = DigestComplete 1"
proof -
  have t: "toLocaleString sampleEnv (timezone carl) = Throws"
    by (simp add: sampleEnv_def clockEnv_def carl_def)
  have r: "rows sampleWorld = [bob] @ carl # [anna]"
    by (simp add: sampleWorld_def)
  have ok: "storeOk sampleEnv (tick sampleWorld)"
    by (simp add: sampleEnv_def clockEnv_def)
  note c4 = C4_bad_timezone_is_skipped[OF t r, of "(0, sampleWorld)"]
  from c4 ok have "fst (getSubscribersForCurrentHour sampleEnv sampleWorld) = [bob, anna]"
    by (simp add: sample_due)
  moreover from c4 ok have "fst (handler sampleEnv True sampleWorld) = DigestComplete 1"
    using sample_handler_count by (simp add: case_prod_beta)
  ultimately show ?thesis using t r c4 by simp
qed

lemma fetchGoodNews_world:
  "snd (fetchGoodNews e ints w) = w\<lparr>tick := tick w + length (take 3 ints)\<rparr>"
  "snd (fetchGoodNewsCron e ints w) = w\<lparr>tick := tick w + length (take 3 ints)\<rparr>"
  by (simp_all add: fetchGoodNews_eq fetchGoodNewsCron_eq)

lemma sendDailyDigest_empty:
  assumes "fst (fetchGoodNews e (interests sub) w) = []"
  shows "sendDailyDigest e w sub = snd (fetchGoodNews e (interests sub) w)"
  using assms by (simp add: sendDailyDigest_def case_prod_beta)

lemma buildAndSend_empty:
  assumes "fst (fetchGoodNewsCron e (interests sub) w) = []"
  shows "buildAndSend e (n, w) sub = (n, snd (fetchGoodNewsCron e (interests sub) w))"
  using assms by (simp add: buildAndSend_def case_prod_beta)

text \<open>
  C8. For a subscriber whose digest comes out empty, nothing is handed to the mail sender:
  after the provider calls for the consulted interests the world is unchanged but for the
  call counter, the list of send calls is as before, and the loop goes on with the next
  subscriber from there. In \<open>sendDailyDigest\<close> of \<open>server.js\<close>, and in \<open>handler\<close> of
  \<open>daily-digest.js\<close> for a subscriber inside the window.
\<close>

theorem C8_empty_digest_sends_nothing:
  "(fst (fetchGoodNews e (interests sub) w) = [] \<longrightarrow>
      sendDailyDigest e w sub = w\<lparr>tick := tick w + length (take 3 (interests sub))\<rparr>
      \<and> sent (sendDailyDigest e w sub) = sent w
      \<and> foldl (sendDailyDigest e) w (sub # rest)
          = foldl (sendDailyDigest e) (w\<lparr>tick := tick w + length (take 3 (interests sub))\<rparr>) rest)
   \<and> (toLocaleString e (timezone sub) = WallClock 7 minute \<and> 30 \<le> minute \<and> minute < 45
      \<and> fst (fetchGoodNewsCron e (interests sub) w) = [] \<longrightarrow>
      processSubscriber e (n, w) sub = (n, w\<lparr>tick := tick w + length (take 3 (interests sub))\<rparr>)
      \<and> sent (snd (processSubscriber e (n, w) sub)) = sent w
      \<and> foldl (processSubscriber e) (n, w) (sub # rest)
          = foldl (processSubscriber e) (n, w\<lparr>tick := tick w + length (take 3 (interests sub))\<rparr>) rest)"
proof (intro conjI impI)
  assume a: "fst (fetchGoodNews e (interests sub) w) = []"
  show s: "sendDailyDigest e w sub = w\<lparr>tick := tick w + length (take 3 (interests sub))\<rparr>"
    using sendDailyDigest_empty[OF a] by (simp add: fetchGoodNews_world)
  show "sent (sendDailyDigest e w sub) = sent w"
    by (simp add: s)
  show "foldl (sendDailyDigest e) w (sub # rest)
          = foldl (sendDailyDigest e) (w\<lparr>tick := tick w + length (take 3 (interests sub))\<rparr>) rest"
    by (simp add: s)
next
  assume b: "toLocaleString e (timezone sub) = WallClock 7 minute \<and> 30 \<le> minute \<and> minute < 45
      \<and> fst (fetchGoodNewsCron e (interests sub) w) = []"
  then have "processSubscriber e (n, w) sub = buildAndSend e (n, w) sub"
    by (simp add: processSubscriber_def)
  with b show p: "processSubscriber e (n, w) sub
        = (n, w\<lparr>tick := tick w + length (take 3 (interests sub))\<rparr>)"
    by (simp add: buildAndSend_empty fetchGoodNews_world)
  show "sent (snd (processSubscriber e (n, w) sub)) = sent w"
    by (simp add: p)
  show "foldl (processSubscriber e) (n, w) (sub # rest)
          = foldl (processSubscriber e) (n, w\<lparr>tick := tick w + length (take 3 (interests sub))\<rparr>) rest"
    by (simp add: p)
qed

lemma bob_digest_empty:
  "fst (fetchGoodNews sampleEnv (interests bob) sampleWorld) = []"
  "fst (fetchGoodNewsCron sampleEnv (interests bob) sampleWorld) = []"
  by (simp_all add: fetchGoodNews_eq fetchGoodNewsCron_eq bob_def sampleEnv_def clockEnv_def
      pushedFor_def pushedForCron_def goodNewsFor_def goodNewsForCron_def
      selectArticles_def selectArticlesCron_def sortBy_def)

theorem C8_empty_digest_sends_nothing_witness:
  "fst (fetchGoodNews sampleEnv (interests bob) sampleWorld) = []
   \<and> toLocaleString sampleEnv (timezone bob) = WallClock 7 31 \<and> (30::nat) \<le> 31 \<and> (31::nat) < 45
   \<and> fst (fetchGoodNewsCron sampleEnv (interests bob) sampleWorld) = []
   \<and> sent (sendDailyDigest sampleEnv sampleWorld bob) = []
   \<and> tick (sendDailyDigest sampleEnv sampleWorld bob) = 1
   \<and> foldl (sendDailyDigest sampleEnv) sampleWorld [bob, anna]
       = foldl (sendDailyDigest sampleEnv) (sampleWorld\<lparr>tick := 1\<rparr>) [anna]
   \<and> processSubscriber sampleEnv (0, sampleWorld) bob = (0, sampleWorld\<lparr>tick := 1\<rparr>)
   \<and> foldl (processSubscriber sampleEnv) (0, sampleWorld) [bob, anna]
       = foldl (processSubscriber sampleEnv) (0, sampleWorld\<lparr>tick := 1\<rparr>) [anna]"
proof -
  have t: "toLocaleString sampleEnv (timezone bob) = WallClock 7 31"
    by (simp add: sampleEnv_def clockEnv_def bob_def)
  have l: "length (interests bob) = 1" "tick sampleWorld = 0" "sent sampleWorld = []"
    by (simp_all add: bob_def sampleWorld_def)
  show ?thesis
    using t bob_digest_empty
      C8_empty_digest_sends_nothing[of sampleEnv bob sampleWorld "[anna]" 31 0]
    by (simp add: l)
qed

section \<open>Facts about signup\<close>

lemma selectSingle_existing:
  assumes "distinct (map email (rows w))" "em \<in> set (map email (rows w))"
  shows "length (filter (\<lambda>r. email r = em) (rows w)) = 1"
proof -
  have "length (filter (\<lambda>r. email r = em) rs) = 1"
    if "distinct (map email rs)" "em \<in> set (map email rs)" for rs :: "subscriber list"
    using that
  proof (induction rs)
    case Nil
    then show ?case by simp
  next
    case (Cons r rs)
    show ?case
    proof (cases "email r = em")
      case True
      with Cons.prems have "em \<notin> set (map email rs)" by auto
      then have "filter (\<lambda>r. email r = em) rs = []"
        by (auto simp: filter_empty_conv)
      with True show ?thesis by simp
    next
      case False
      with Cons show ?thesis by auto
    qed
  qed
  with assms show ?thesis by blast
qed

lemma isValidEmail_nonempty: "isValidEmail em \<Longrightarrow> em \<noteq> []"
  by (auto simp: isValidEmail_def emailRegex_def)

lemma signup_existing:
  assumes "body_email body = Some em" "isValidEmail em"
    and "sanitizeInterests (body_interests body) \<noteq> []"
    and "distinct (map email (rows w))" "em \<in> set (map email (rows w))"
    and "storeOk e (tick w)" "storeOk e (Suc (tick w))"
  shows "signup e body w =
     (Message ''Preferences updated successfully!'',
      w\<lparr>tick := Suc (Suc (tick w)),
        storeCalls := storeCalls w @
           [SelectEmail em,
            Update em (sanitizeInterests (body_interests body))
              (cleanTimezoneOf (body_timezone body)) (isoNow e)],
        rows := map (\<lambda>r. if email r = em
                          then r\<lparr>interests := sanitizeInterests (body_interests body),
                                 timezone := Some (cleanTimezoneOf (body_timezone body)),
                                 updated_at := Some (isoNow e)\<rparr>
                          else r) (rows w)\<rparr>)"
  using assms selectSingle_existing[OF assms(4,5)] isValidEmail_nonempty[OF assms(2)]
  by (simp add: signup_def selectSingle_def storeUpdate_def Let_def)

lemma signupHandler_existing:
  assumes "body_email body = Some em" "isValidEmail em"
    and "sanitizeInterests (body_interests body) \<noteq> []"
    and "distinct (map email (rows w))" "em \<in> set (map email (rows w))"
    and "storeOk e (tick w)" "storeOk e (Suc (tick w))"
  shows "signupHandler e POST body w =
     (Message ''Preferences updated successfully!'',
      w\<lparr>tick := Suc (Suc (tick w)),
        storeCalls := storeCalls w @
           [SelectEmail em,
            Update em (sanitizeInterests (body_interests body))
              (cleanTimezoneOf (body_timezone body)) (isoNow e)],
        rows := map (\<lambda>r. if email r = em
                          then r\<lparr>interests := sanitizeInterests (body_interests body),
                                 timezone := Some (cleanTimezoneOf (body_timezone body)),
                                 updated_at := Some (isoNow e)\<rparr>
                          else r) (rows w)\<rparr>)"
  using assms selectSingle_existing[OF assms(4,5)] isValidEmail_nonempty[OF assms(2)]
  by (simp add: signupHandler_def selectSingle_def storeUpdate_def Let_def)


lemma signup_no_valid_email:
  assumes "body_email body = None \<or> (\<exists>a. body_email body = Some a \<and> \<not> isValidEmail a)"
  shows "signup e body w = (BadRequest ''Valid email required'', w)
       \<and> signupHandler e POST body w = (BadRequest ''Valid email required'', w)"
  using assms by (auto simp: signup_def signupHandler_def)

lemma signup_no_interest:
  assumes "body_email body = Some a" "isValidEmail a"
    and "sanitizeInterests (body_interests body) = []"
  shows "signup e body w = (BadRequest ''At least one interest required'', w)
       \<and> signupHandler e POST body w = (BadRequest ''At least one interest required'', w)"
  using assms isValidEmail_nonempty[OF assms(2)]
  by (simp add: signup_def signupHandler_def)

lemma sample_signup_facts:
  "isValidEmail ''anna@example.org''"
  "sanitizeInterests (Some [''Tech'']) = [''tech'']"
  "sanitizeInterests (Some [''!!!'']) = []"
  "cleanTimezoneOf None = ''America/New_York''"
  "\<not> isValidEmail (''a'' @ [CHR 0xA0] @ ''b@c.de'')"
  by code_simp+

lemma sample_rows_distinct:
  "distinct (map email (rows sampleWorld))"
  "''anna@example.org'' \<in> set (map email (rows sampleWorld))"
  by (simp_all add: sampleWorld_def anna_def bob_def carl_def)

text \<open>
  C9, as the code has it. The claim as stated fails for a request that does not pass the
  validation in front of the store: with an address that is stored and interests that
  sanitize to nothing, both handlers answer 400 and make no store call at all.
\<close>

theorem C9_counterexample:
  "''anna@example.org'' \<in> set (map email (rows sampleWorld))
   \<and> body_email noInterestsBody = Some ''anna@example.org''
   \<and> signup sampleEnv noInterestsBody sampleWorld
       = (BadRequest ''At least one interest required'', sampleWorld)
   \<and> signupHandler sampleEnv POST noInterestsBody sampleWorld
       = (BadRequest ''At least one interest required'', sampleWorld)
   \<and> storeCalls (snd (signup sampleEnv noInterestsBody sampleWorld)) = []
   \<and> storeCalls (snd (signupHandler sampleEnv POST noInterestsBody sampleWorld)) = []"
proof -
  have b: "body_email noInterestsBody = Some ''anna@example.org''"
    "body_interests noInterestsBody = Some [''!!!'']"
    by (simp_all add: noInterestsBody_def)
  have s: "signup sampleEnv noInterestsBody sampleWorld
       = (BadRequest ''At least one interest required'', sampleWorld)"
    by (simp add: signup_def b sample_signup_facts)
  have h: "signupHandler sampleEnv POST noInterestsBody sampleWorld
       = (BadRequest ''At least one interest required'', sampleWorld)"
    by (simp add: signupHandler_def b sample_signup_facts)
  have c: "storeCalls sampleWorld = []" by (simp add: sampleWorld_def)
  show ?thesis using b s h c sample_rows_distinct by simp
qed

text \<open>
  C9, amended. For a signup request that passes validation (a valid email, at least one
  interest left after sanitization) and whose email is already stored, in a store with
  one row per email that answers the lookup and the update: both handlers make one lookup
  and one update of interests, timezone and \<open>updated_at\<close> for that email and no insert;
  the rows keep their emails, so there is no new row; no welcome mail is sent; and the
  answer is the message that the preferences were updated. A request that fails validation
  (no email, an email the pattern or the length limit refuses, or no interest left after
  sanitization) is answered 400 with the world as it was: the store is not consulted.
\<close>

theorem C9_existing_email_is_updated:
  "(body_email body = Some em \<and> isValidEmail em
      \<and> sanitizeInterests (body_interests body) \<noteq> []
      \<and> distinct (map email (rows w)) \<and> em \<in> set (map email (rows w))
      \<and> storeOk e (tick w) \<and> storeOk e (Suc (tick w)) \<longrightarrow>
        fst (signup e body w) = Message ''Preferences updated successfully!''
        \<and> storeCalls (snd (signup e body w)) =
            storeCalls w @
              [SelectEmail em,
               Update em (sanitizeInterests (body_interests body))
                 (cleanTimezoneOf (body_timezone body)) (isoNow e)]
        \<and> rows (snd (signup e body w)) =
            map (\<lambda>r. if email r = em
                      then r\<lparr>interests := sanitizeInterests (body_interests body),
                             timezone := Some (cleanTimezoneOf (body_timezone body)),
                             updated_at := Some (isoNow e)\<rparr>
                      else r) (rows w)
        \<and> map email (rows (snd (signup e body w))) = map email (rows w)
        \<and> sent (snd (signup e body w)) = sent w
        \<and> signupHandler e POST body w = signup e body w)
   \<and> (body_email body = None \<or> (\<exists>a. body_email body = Some a \<and> \<not> isValidEmail a) \<longrightarrow>
        signup e body w = (BadRequest ''Valid email required'', w)
        \<and> signupHandler e POST body w = (BadRequest ''Valid email required'', w))
   \<and> ((\<exists>a. body_email body = Some a \<and> isValidEmail a)
        \<and> sanitizeInterests (body_interests body) = [] \<longrightarrow>
        signup e body w = (BadRequest ''At least one interest required'', w)
        \<and> signupHandler e POST body w = (BadRequest ''At least one interest required'', w))"
proof (intro conjI impI)
  assume a: "body_email body = Some em \<and> isValidEmail em
      \<and> sanitizeInterests (body_interests body) \<noteq> []
      \<and> distinct (map email (rows w)) \<and> em \<in> set (map email (rows w))
      \<and> storeOk e (tick w) \<and> storeOk e (Suc (tick w))"
  then have s: "signup e body w =
     (Message ''Preferences updated successfully!'',
      w\<lparr>tick := Suc (Suc (tick w)),
        storeCalls := storeCalls w @
           [SelectEmail em,
            Update em (sanitizeInterests (body_interests body))
              (cleanTimezoneOf (body_timezone body)) (isoNow e)],
        rows := map (\<lambda>r. if email r = em
                          then r\<lparr>interests := sanitizeInterests (body_interests body),
                                 timezone := Some (cleanTimezoneOf (body_timezone body)),
                                 updated_at := Some (isoNow e)\<rparr>
                          else r) (rows w)\<rparr>)"
    by (intro signup_existing) simp_all
  from a have h: "signupHandler e POST body w = signup e body w"
    unfolding s by (intro signupHandler_existing) simp_all
  show "fst (signup e body w) = Message ''Preferences updated successfully!''"
    by (simp add: s)
  show "storeCalls (snd (signup e body w)) =
            storeCalls w @
              [SelectEmail em,
               Update em (sanitizeInterests (body_interests body))
                 (cleanTimezoneOf (body_timezone body)) (isoNow e)]"
    by (simp add: s)
  show "rows (snd (signup e body w)) =
            map (\<lambda>r. if email r = em
                      then r\<lparr>interests := sanitizeInterests (body_interests body),
                             timezone := Some (cleanTimezoneOf (body_timezone body)),
                             updated_at := Some (isoNow e)\<rparr>
                      else r) (rows w)"
    by (simp add: s)
  show "map email (rows (snd (signup e body w))) = map email (rows w)"
    unfolding s by (simp add: comp_def cong: map_cong)
  show "sent (snd (signup e body w)) = sent w"
    by (simp add: s)
  show "signupHandler e POST body w = signup e body w"
    by (rule h)
next
  assume "body_email body = None \<or> (\<exists>a. body_email body = Some a \<and> \<not> isValidEmail a)"
  from signup_no_valid_email[OF this]
  show "signup e body w = (BadRequest ''Valid email required'', w)"
    and "signupHandler e POST body w = (BadRequest ''Valid email required'', w)"
    by simp_all
next
  assume "(\<exists>a. body_email body = Some a \<and> isValidEmail a)
        \<and> sanitizeInterests (body_interests body) = []"
  then obtain a where "body_email body = Some a" "isValidEmail a"
    "sanitizeInterests (body_interests body) = []" by blast
  from signup_no_interest[OF this]
  show "signup e body w = (BadRequest ''At least one interest required'', w)"
    and "signupHandler e POST body w = (BadRequest ''At least one interest required'', w)"
    by simp_all
qed

theorem C9_existing_email_is_updated_witness:
  "body_email newInterestsBody = Some ''anna@example.org''
   \<and> isValidEmail ''anna@example.org''
   \<and> sanitizeInterests (body_interests newInterestsBody) = [''tech'']
   \<and> distinct (map email (rows sampleWorld))
   \<and> ''anna@example.org'' \<in> set (map email (rows sampleWorld))
   \<and> storeOk sampleEnv (tick sampleWorld) \<and> storeOk sampleEnv (Suc (tick sampleWorld))
   \<and> fst (signup sampleEnv newInterestsBody sampleWorld)
       = Message ''Preferences updated successfully!''
   \<and> storeCalls (snd (signup sampleEnv newInterestsBody sampleWorld))
       = [SelectEmail ''anna@example.org'',
          Update ''anna@example.org'' [''tech''] ''America/New_York'' ''2026-01-01T06:31:00.000Z'']
   \<and> map email (rows (snd (signup sampleEnv newInterestsBody sampleWorld)))
       = [''bob@example.org'', ''carl@example.org'', ''anna@example.org'']
   \<and> signupHandler sampleEnv POST newInterestsBody sampleWorld
       = signup sampleEnv newInterestsBody sampleWorld
   \<and> body_email nbspEmailBody = Some (''a'' @ [CHR 0xA0] @ ''b@c.de'')
   \<and> \<not> isValidEmail (''a'' @ [CHR 0xA0] @ ''b@c.de'')
   \<and> signup sampleEnv nbspEmailBody sampleWorld
       = (BadRequest ''Valid email required'', sampleWorld)
   \<and> signupHandler sampleEnv POST nbspEmailBody sampleWorld
       = (BadRequest ''Valid email required'', sampleWorld)
   \<and> body_email noInterestsBody = Some ''anna@example.org''
   \<and> sanitizeInterests (body_interests noInterestsBody) = []
   \<and> signup sampleEnv noInterestsBody sampleWorld
       = (BadRequest ''At least one interest required'', sampleWorld)
   \<and> signupHandler sampleEnv POST noInterestsBody sampleWorld
       = (BadRequest ''At least one interest required'', sampleWorld)"
proof -
  have b: "body_email newInterestsBody = Some ''anna@example.org''"
    "body_interests newInterestsBody = Some [''Tech'']"
    "body_timezone newInterestsBody = None"
    by (simp_all add: newInterestsBody_def)
  have si: "sanitizeInterests (body_interests newInterestsBody) \<noteq> []"
    by (simp add: b sample_signup_facts)
  have ok: "storeOk sampleEnv (tick sampleWorld)" "storeOk sampleEnv (Suc (tick sampleWorld))"
    by (simp_all add: sampleEnv_def clockEnv_def)
  have w: "storeCalls sampleWorld = []"
    "map email (rows sampleWorld) = [''bob@example.org'', ''carl@example.org'', ''anna@example.org'']"
    by (simp_all add: sampleWorld_def anna_def bob_def carl_def)
  have i: "isoNow sampleEnv = ''2026-01-01T06:31:00.000Z''"
    by (simp add: sampleEnv_def clockEnv_def)
  note c9 = C9_existing_email_is_updated[of newInterestsBody "''anna@example.org''" sampleWorld sampleEnv]
  have pre: "body_email newInterestsBody = Some ''anna@example.org'' \<and> isValidEmail ''anna@example.org''
      \<and> sanitizeInterests (body_interests newInterestsBody) \<noteq> []
      \<and> distinct (map email (rows sampleWorld))
      \<and> ''anna@example.org'' \<in> set (map email (rows sampleWorld))
      \<and> storeOk sampleEnv (tick sampleWorld) \<and> storeOk sampleEnv (Suc (tick sampleWorld))"
    using b(1) sample_signup_facts(1) si sample_rows_distinct ok by (intro conjI)
  from c9 pre have r1: "fst (signup sampleEnv newInterestsBody sampleWorld)
       = Message ''Preferences updated successfully!''"
    by blast
  from c9 pre have "storeCalls (snd (signup sampleEnv newInterestsBody sampleWorld)) =
         storeCalls sampleWorld @
           [SelectEmail ''anna@example.org'',
            Update ''anna@example.org'' (sanitizeInterests (body_interests newInterestsBody))
              (cleanTimezoneOf (body_timezone newInterestsBody)) (isoNow sampleEnv)]"
    by blast
  then have r2: "storeCalls (snd (signup sampleEnv newInterestsBody sampleWorld))
       = [SelectEmail ''anna@example.org'',
          Update ''anna@example.org'' [''tech''] ''America/New_York'' ''2026-01-01T06:31:00.000Z'']"
    by (simp add: b sample_signup_facts w i)
  from c9 pre have "map email (rows (snd (signup sampleEnv newInterestsBody sampleWorld)))
       = map email (rows sampleWorld)"
    by blast
  then have r3: "map email (rows (snd (signup sampleEnv newInterestsBody sampleWorld)))
       = [''bob@example.org'', ''carl@example.org'', ''anna@example.org'']"
    by (simp only: w)
  from c9 pre have r4: "signupHandler sampleEnv POST newInterestsBody sampleWorld
       = signup sampleEnv newInterestsBody sampleWorld"
    by blast
  have s1: "sanitizeInterests (body_interests newInterestsBody) = [''tech'']"
    by (simp add: b sample_signup_facts)
  have n: "body_email nbspEmailBody = Some (''a'' @ [CHR 0xA0] @ ''b@c.de'')"
    by (simp add: nbspEmailBody_def)
  note nv = sample_signup_facts(5)
  from n nv have np: "body_email nbspEmailBody = None
      \<or> (\<exists>a. body_email nbspEmailBody = Some a \<and> \<not> isValidEmail a)"
    by blast
  from C9_existing_email_is_updated[of nbspEmailBody _ sampleWorld sampleEnv] np
  have r5: "signup sampleEnv nbspEmailBody sampleWorld
       = (BadRequest ''Valid email required'', sampleWorld)"
    and r6: "signupHandler sampleEnv POST nbspEmailBody sampleWorld
       = (BadRequest ''Valid email required'', sampleWorld)"
    by blast+
  have e: "body_email noInterestsBody = Some ''anna@example.org''"
    and es: "sanitizeInterests (body_interests noInterestsBody) = []"
    by (simp_all add: noInterestsBody_def sample_signup_facts)
  from e es sample_signup_facts(1)
  have ep: "(\<exists>a. body_email noInterestsBody = Some a \<and> isValidEmail a)
        \<and> sanitizeInterests (body_interests noInterestsBody) = []"
    by blast
  from C9_existing_email_is_updated[of noInterestsBody _ sampleWorld sampleEnv] ep
  have r7: "signup sampleEnv noInterestsBody sampleWorld
       = (BadRequest ''At least one interest required'', sampleWorld)"
    and r8: "signupHandler sampleEnv POST noInterestsBody sampleWorld
       = (BadRequest ''At least one interest required'', sampleWorld)"
    by blast+
  show ?thesis
    using b(1) sample_signup_facts(1) s1 sample_rows_distinct ok r1 r2 r3 r4 n nv r5 r6 e es r7 r8
    by (intro conjI)
qed

end
